theory Spec2Isabelle
  imports
    Complex_Main
    "HOL-Library.Char_ord"
    "HOL-Library.List_Lexorder"
    "HOL-Library.Product_Lexorder"
begin

section \<open>Python values of the expense tracker\<close>

text \<open>
  \<^verbatim>\<open>Practical.py\<close> keeps a pandas table of expenses (\<^verbatim>\<open>self.df\<close>) backed by a file
  (\<^verbatim>\<open>self.file_path\<close>). The embedding below follows the class \<^verbatim>\<open>ExpenseTracker\<close>
  method by method, with explicit state passing: every method takes the object and the
  file, and returns them together with what it printed.

  A Python \<^verbatim>\<open>float\<close> is a finite value or \<^verbatim>\<open>nan\<close>. A finite value is the rational number
  the double stands for, so comparisons are those of the doubles; every comparison with
  \<^verbatim>\<open>nan\<close> is false, as in Python. The sums the code asks of numpy and pandas round, and
  are not computed here: they are taken from the library (see \<open>lib\<close> below). The
  infinities are not modelled.
\<close>

datatype pyfloat = Fin rat | NaN

fun pf_le :: "pyfloat \<Rightarrow> pyfloat \<Rightarrow> bool" where
  "pf_le (Fin a) (Fin b) = (a \<le> b)"
| "pf_le _ _ = False"

fun pf_lt :: "pyfloat \<Rightarrow> pyfloat \<Rightarrow> bool" where
  "pf_lt (Fin a) (Fin b) = (a < b)"
| "pf_lt _ _ = False"



text \<open>
  A pandas \<^verbatim>\<open>Timestamp\<close>: year, month, day and the nanoseconds since midnight. \<open>Stamp\<close> has
  no time zone; \<open>StampUTC\<close> has one, and holds the wall time at UTC of its instant;
  \<^verbatim>\<open>NaT\<close> is the missing timestamp. \<open>ts_le\<close> is the chronological order between two
  timestamps of the same kind.
\<close>

datatype timestamp = NaT | Stamp int nat nat nat | StampUTC int nat nat nat

fun ts_le :: "timestamp \<Rightarrow> timestamp \<Rightarrow> bool" where
  "ts_le (Stamp y m d n) (Stamp y' m' d' n') = ((y, m, d, n) \<le> (y', m', d', n'))"
| "ts_le (StampUTC y m d n) (StampUTC y' m' d' n') = ((y, m, d, n) \<le> (y', m', d', n'))"
| "ts_le _ _ = False"

fun zoned :: "timestamp \<Rightarrow> bool" where
  "zoned (StampUTC y m d n) = True"
| "zoned _ = False"

datatype exn = ValueError | TypeError | ParserError | FileNotFoundError

text \<open>
  The comparison pandas makes between a date of the table and a bound: false when either
  is \<^verbatim>\<open>NaT\<close>, a \<^verbatim>\<open>TypeError\<close> when one has a time zone and the other has none. It is
  taken row by row.
\<close>

definition compare_dates :: "timestamp \<Rightarrow> timestamp \<Rightarrow> exn + bool" where
  "compare_dates a b =
     (if a = NaT \<or> b = NaT then Inr False
      else if zoned a = zoned b then Inr (ts_le a b)
      else Inl TypeError)"

text \<open>The raw values a caller may pass: \<^verbatim>\<open>None\<close>, a string, a number, a timestamp.\<close>

datatype pyval = PNone | PStr string | PInt int | PFloat pyfloat | PTime timestamp

text \<open>Python's truth value, as used by \<^verbatim>\<open>if x:\<close> and \<^verbatim>\<open>if not x:\<close>.\<close>

fun truthy :: "pyval \<Rightarrow> bool" where
  "truthy PNone = False"
| "truthy (PStr s) = (s \<noteq> [])"
| "truthy (PInt n) = (n \<noteq> 0)"
| "truthy (PFloat (Fin a)) = (a \<noteq> 0)"
| "truthy (PFloat NaN) = True"
| "truthy (PTime t) = True"

text \<open>
  What the code takes from its libraries is a parameter of the model: the two parsers
  (\<^verbatim>\<open>pd.to_datetime\<close> on anything that is not already a timestamp, and \<^verbatim>\<open>float\<close> on a
  string, with \<open>None\<close> for the \<^verbatim>\<open>ValueError\<close> they raise on text they cannot parse), and
  the three floating-point reductions over the numbers of a column: \<^verbatim>\<open>np.sum\<close>,
  \<^verbatim>\<open>np.mean\<close> and the sum of one group of a \<^verbatim>\<open>groupby\<close>. Nothing is assumed of them.
\<close>

record lib =
  pd_to_datetime :: "pyval \<Rightarrow> timestamp option"
  str_to_float :: "string \<Rightarrow> pyfloat option"
  np_sum :: "rat list \<Rightarrow> rat"
  np_mean :: "rat list \<Rightarrow> rat"
  group_sum :: "rat list \<Rightarrow> rat"

definition to_datetime :: "lib \<Rightarrow> pyval \<Rightarrow> exn + timestamp" where
  "to_datetime L v =
     (case v of
        PTime t \<Rightarrow> Inr t
      | _ \<Rightarrow> (case pd_to_datetime L v of None \<Rightarrow> Inl ValueError | Some t \<Rightarrow> Inr t))"

definition py_float :: "lib \<Rightarrow> pyval \<Rightarrow> exn + pyfloat" where
  "py_float L v =
     (case v of
        PNone \<Rightarrow> Inl TypeError
      | PStr s \<Rightarrow> (case str_to_float L s of None \<Rightarrow> Inl ValueError | Some x \<Rightarrow> Inr x)
      | PInt n \<Rightarrow> Inr (Fin (of_int n))
      | PFloat x \<Rightarrow> Inr x
      | PTime t \<Rightarrow> Inl TypeError)"

section \<open>The table, the file and the object\<close>

text \<open>
  A row has the four columns \<^verbatim>\<open>Date\<close>, \<^verbatim>\<open>Amount\<close>, \<^verbatim>\<open>Category\<close>, \<^verbatim>\<open>Description\<close>. In
  \<^verbatim>\<open>self.df\<close> the date is a timestamp; in the file it is whatever was written there,
  converted by \<^verbatim>\<open>pd.to_datetime\<close> when the file is loaded. A description is the text
  given, or \<^verbatim>\<open>nan\<close> where the file gave none.

  The file is a table of such rows. A date and an amount are kept in the file as the
  value written: how they are printed as text and read back is not modelled. A text cell
  is kept as its text, and \<^verbatim>\<open>pd.read_csv\<close> reads it as pandas does by default: a text
  that is one of its markers of a missing value becomes \<^verbatim>\<open>nan\<close>. (That \<^verbatim>\<open>read_csv\<close> also
  turns a column of numerals into numbers is not modelled.)
\<close>

record 'd row =
  Date :: 'd
  Amount :: pyfloat
  Category :: string
  Description :: pyval

type_synonym frame = "timestamp row list"

datatype store = Absent | Malformed | Table "pyval row list"

record tracker =
  file_path :: string
  categories :: "string list"
  df :: frame

text \<open>What a method prints, line by line; a formatted number is kept as the number.\<close>

datatype out =
    Line string
  | Removed nat
  | CategoryError "string list"
  | Total pyfloat
  | Average pyfloat
  | CategoryLine string pyfloat
  | TopCategory string
  | MonthLine "int \<times> nat" pyfloat
  | Frame frame

type_synonym result = "exn + (tracker \<times> store \<times> out list)"

section \<open>Loading\<close>

text \<open>The texts \<^verbatim>\<open>pd.read_csv\<close> takes for a missing value by default (pandas 2).\<close>

definition na_values :: "string list" where
  "na_values =
     [[], ''#N/A'', ''#N/A N/A'', ''#NA'', ''-1.#IND'', ''-1.#QNAN'', ''-NaN'', ''-nan'',
      ''1.#IND'', ''1.#QNAN'', ''<NA>'', ''N/A'', ''NA'', ''NULL'', ''NaN'', ''None'',
      ''n/a'', ''nan'', ''null'']"

definition na_cell :: "pyval \<Rightarrow> pyval" where
  "na_cell v = (case v of PStr s \<Rightarrow> if s \<in> set na_values then PFloat NaN else v | _ \<Rightarrow> v)"

definition read_csv :: "store \<Rightarrow> exn + pyval row list" where
  "read_csv s =
     (case s of
        Absent \<Rightarrow> Inl FileNotFoundError
      | Malformed \<Rightarrow> Inl ParserError
      | Table raw \<Rightarrow>
          Inr (map (\<lambda>r. \<lparr>Date = na_cell (Date r), Amount = Amount r, Category = Category r,
                          Description = na_cell (Description r)\<rparr>) raw))"

text \<open>
  \<^verbatim>\<open>pd.to_datetime(self.df['Date'])\<close> converts the column; the first cell it cannot convert
  raises, and nothing in \<^verbatim>\<open>load_data\<close> catches that. The conversion is taken cell by
  cell: that pandas settles on one text format for the whole column is not modelled.
\<close>

fun convert_dates :: "lib \<Rightarrow> pyval row list \<Rightarrow> exn + frame" where
  "convert_dates L [] = Inr []"
| "convert_dates L (r # rs) =
     (case to_datetime L (Date r) of
        Inl e \<Rightarrow> Inl e
      | Inr d \<Rightarrow>
          (case convert_dates L rs of
             Inl e \<Rightarrow> Inl e
           | Inr ds \<Rightarrow>
               Inr (\<lparr>Date = d, Amount = Amount r, Category = Category r,
                     Description = Description r\<rparr> # ds)))"

text \<open>
  The row mask of \<^verbatim>\<open>load_data\<close>: \<^verbatim>\<open>(Amount > 0) & Category.isin(categories)\<close>. A category
  text that \<^verbatim>\<open>read_csv\<close> took for a missing value is in no list.
\<close>

definition keep_row :: "string list \<Rightarrow> timestamp row \<Rightarrow> bool" where
  "keep_row cats r =
     (pf_lt (Fin 0) (Amount r) \<and> Category r \<in> set cats \<and> Category r \<notin> set na_values)"

definition load_data :: "lib \<Rightarrow> tracker \<Rightarrow> store \<Rightarrow> result" where
  "load_data L t s =
     (case read_csv s of
        Inl e \<Rightarrow>
          (if e = FileNotFoundError
           then Inr (t\<lparr>df := []\<rparr>, s, [Line ''File not found. Starting with empty data.''])
           else Inl e)
      | Inr raw \<Rightarrow>
          (case convert_dates L raw of
             Inl e \<Rightarrow> Inl e
           | Inr rows \<Rightarrow>
               (let kept = filter (keep_row (categories t)) rows;
                    invalid_rows = length rows - length kept
                in Inr (t\<lparr>df := kept\<rparr>, s,
                        if invalid_rows \<noteq> 0 then [Removed invalid_rows] else []))))"

text \<open>The constructor: \<^verbatim>\<open>self.df = None\<close> is overwritten by \<^verbatim>\<open>load_data\<close> at once.\<close>

definition ExpenseTracker :: "lib \<Rightarrow> string \<Rightarrow> store \<Rightarrow> result" where
  "ExpenseTracker L path s =
     load_data L
       \<lparr>file_path = path,
        categories = [''Food'', ''Transport'', ''Utilities'', ''Entertainment''],
        df = []\<rparr> s"

section \<open>Adding an expense\<close>

text \<open>
  \<^verbatim>\<open>self.df.to_csv(self.file_path, index=False)\<close> replaces the whole file; a missing
  description is written as the empty text.
\<close>

definition to_csv :: "frame \<Rightarrow> store" where
  "to_csv rows =
     Table (map (\<lambda>r. \<lparr>Date = PTime (Date r), Amount = Amount r, Category = Category r,
                         Description =
                           (case Description r of PFloat NaN \<Rightarrow> PStr [] | d \<Rightarrow> d)\<rparr>) rows)"

text \<open>
  The date and the amount arrive as raw values; the category and the description are
  text, as the prompts of \<^verbatim>\<open>main\<close> supply them. The \<^verbatim>\<open>try\<close> block catches \<^verbatim>\<open>ValueError\<close>
  only, so any other exception leaves the method before anything is assigned or written.
\<close>

definition add_expense ::
  "lib \<Rightarrow> tracker \<Rightarrow> store \<Rightarrow> pyval \<Rightarrow> pyval \<Rightarrow> string \<Rightarrow> string \<Rightarrow> result" where
  "add_expense L t s date amount category description =
     (case to_datetime L date of
        Inl e \<Rightarrow>
          (if e = ValueError then Inr (t, s, [Line ''Error: Invalid date or amount''])
           else Inl e)
      | Inr parsed_date \<Rightarrow>
          (case py_float L amount of
             Inl e \<Rightarrow>
               (if e = ValueError then Inr (t, s, [Line ''Error: Invalid date or amount''])
                else Inl e)
           | Inr amount' \<Rightarrow>
               if pf_le amount' (Fin 0) then
                 Inr (t, s, [Line ''Error: Amount must be positive''])
               else if category \<notin> set (categories t) then
                 Inr (t, s, [CategoryError (categories t)])
               else
                 (let description' =
                        (if description = [] then ''No description'' else description);
                      new_expense =
                        \<lparr>Date = parsed_date, Amount = amount', Category = category,
                         Description = PStr description'\<rparr>;
                      df' = df t @ [new_expense]
                  in Inr (t\<lparr>df := df'\<rparr>, to_csv df', [Line ''Expense added!'']))))"

section \<open>Summary\<close>

text \<open>
  \<^verbatim>\<open>np.sum\<close> and \<^verbatim>\<open>np.mean\<close> of a pandas column call the column's own \<^verbatim>\<open>sum\<close> and
  \<^verbatim>\<open>mean\<close>, which leave \<^verbatim>\<open>nan\<close> cells out, as does the sum of a group; the sum of no
  number is 0 and the mean of none is \<^verbatim>\<open>nan\<close>. The numbers left are handed to the
  library.
\<close>

fun dropna :: "pyfloat list \<Rightarrow> rat list" where
  "dropna [] = []"
| "dropna (Fin a # xs) = a # dropna xs"
| "dropna (NaN # xs) = dropna xs"

definition series_sum :: "lib \<Rightarrow> pyfloat list \<Rightarrow> pyfloat" where
  "series_sum L xs = (if dropna xs = [] then Fin 0 else Fin (np_sum L (dropna xs)))"

definition series_mean :: "lib \<Rightarrow> pyfloat list \<Rightarrow> pyfloat" where
  "series_mean L xs = (if dropna xs = [] then NaN else Fin (np_mean L (dropna xs)))"

definition series_group_sum :: "lib \<Rightarrow> pyfloat list \<Rightarrow> pyfloat" where
  "series_group_sum L xs = (if dropna xs = [] then Fin 0 else Fin (group_sum L (dropna xs)))"

text \<open>
  \<^verbatim>\<open>df.groupby(key)['Amount'].sum()\<close>: one entry per key present in the data, in ascending
  key order; a row whose key is missing belongs to no group.
\<close>

definition groupby_sum ::
  "lib \<Rightarrow> (timestamp row \<Rightarrow> 'k option) \<Rightarrow> frame \<Rightarrow> ('k::linorder \<times> pyfloat) list" where
  "groupby_sum L key rows =
     map (\<lambda>k. (k, series_group_sum L (map Amount (filter (\<lambda>r. key r = Some k) rows))))
       (sort (remdups (List.map_filter key rows)))"

definition summary_total :: "lib \<Rightarrow> frame \<Rightarrow> pyfloat" where
  "summary_total L rows = series_sum L (map Amount rows)"

definition summary_avg :: "lib \<Rightarrow> frame \<Rightarrow> pyfloat" where
  "summary_avg L rows = series_mean L (map Amount rows)"

definition category_totals :: "lib \<Rightarrow> frame \<Rightarrow> (string \<times> pyfloat) list" where
  "category_totals L rows = groupby_sum L (\<lambda>r. Some (Category r)) rows"

definition get_summary :: "lib \<Rightarrow> tracker \<Rightarrow> store \<Rightarrow> tracker \<times> store \<times> out list" where
  "get_summary L t s =
     (if df t = [] then (t, s, [Line ''No expenses recorded.''])
      else
        (let total = summary_total L (df t);
             avg = summary_avg L (df t);
             cats = category_totals L (df t)
         in (t, s,
             [Line ''Expense Summary:'', Total total, Average avg, Line [],
              Line ''Expenses by Category:'']
             @ map (\<lambda>(category, amount). CategoryLine category amount) cats)))"

section \<open>Filtering\<close>

text \<open>
  Each bound is looked at only when it is truthy. Inside its \<^verbatim>\<open>try\<close> a bound is parsed and
  the working copy \<^verbatim>\<open>filtered_df\<close> narrowed by a comparison of the column with the bound;
  \<^verbatim>\<open>except ValueError\<close> prints and returns, and any other exception goes to the caller.
\<close>

fun filter_rows :: "(timestamp row \<Rightarrow> exn + bool) \<Rightarrow> frame \<Rightarrow> exn + frame" where
  "filter_rows p [] = Inr []"
| "filter_rows p (r # rs) =
     (case p r of
        Inl e \<Rightarrow> Inl e
      | Inr b \<Rightarrow>
          (case filter_rows p rs of
             Inl e \<Rightarrow> Inl e
           | Inr rs' \<Rightarrow> Inr (if b then r # rs' else rs')))"

definition except_ValueError :: "string \<Rightarrow> tracker \<Rightarrow> store \<Rightarrow> exn \<Rightarrow> result" where
  "except_ValueError msg t s e = (if e = ValueError then Inr (t, s, [Line msg]) else Inl e)"

definition filter_expenses ::
  "lib \<Rightarrow> tracker \<Rightarrow> store \<Rightarrow> pyval \<Rightarrow> pyval \<Rightarrow> pyval \<Rightarrow> pyval \<Rightarrow> result" where
  "filter_expenses L t s category start_date end_date min_amount =
     (let filtered_df = df t;
          filtered_df =
            (if truthy category
             then filter (\<lambda>r. PStr (Category r) = category) filtered_df
             else filtered_df)
      in case (if truthy start_date
               then (case to_datetime L start_date of
                       Inl e \<Rightarrow> Inl e
                     | Inr start \<Rightarrow>
                         filter_rows (\<lambda>r. compare_dates start (Date r)) filtered_df)
               else Inr filtered_df) of
           Inl e \<Rightarrow> except_ValueError ''Error: Invalid start date'' t s e
         | Inr filtered_df \<Rightarrow>
      (case (if truthy end_date
             then (case to_datetime L end_date of
                     Inl e \<Rightarrow> Inl e
                   | Inr end' \<Rightarrow>
                       filter_rows (\<lambda>r. compare_dates (Date r) end') filtered_df)
             else Inr filtered_df) of
           Inl e \<Rightarrow> except_ValueError ''Error: Invalid end date'' t s e
         | Inr filtered_df \<Rightarrow>
      (case (if truthy min_amount
             then (case py_float L min_amount of
                     Inl e \<Rightarrow> Inl e
                   | Inr min_amt \<Rightarrow> Inr (filter (\<lambda>r. pf_le min_amt (Amount r)) filtered_df))
             else Inr filtered_df) of
           Inl e \<Rightarrow> except_ValueError ''Error: Invalid minimum amount'' t s e
         | Inr filtered_df \<Rightarrow>
             if filtered_df = [] then Inr (t, s, [Line ''No expenses found.''])
             else Inr (t, s, [Frame filtered_df]))))"

section \<open>Report\<close>

text \<open>\<^verbatim>\<open>idxmax\<close>: the key of the first largest value; it raises on an empty column.\<close>

fun idxmax :: "('k \<times> pyfloat) list \<Rightarrow> 'k option" where
  "idxmax [] = None"
| "idxmax (kv # kvs) =
     Some (fst (foldl (\<lambda>best kv'. if pf_lt (snd best) (snd kv') then kv' else best) kv kvs))"

text \<open>\<^verbatim>\<open>Date.dt.to_period('M')\<close>: the year and the month; \<^verbatim>\<open>NaT\<close> has no period.\<close>

fun to_period_M :: "timestamp \<Rightarrow> (int \<times> nat) option" where
  "to_period_M NaT = None"
| "to_period_M (Stamp y m d n) = Some (y, m)"
| "to_period_M (StampUTC y m d n) = Some (y, m)"

definition generate_report :: "lib \<Rightarrow> tracker \<Rightarrow> store \<Rightarrow> result" where
  "generate_report L t s =
     (if df t = [] then Inr (t, s, [Line ''No expenses to report.''])
      else
        (let total = summary_total L (df t);
             cats = category_totals L (df t)
         in case idxmax cats of
              None \<Rightarrow> Inl ValueError
            | Some top_category \<Rightarrow>
                (let monthly_totals = groupby_sum L (\<lambda>r. to_period_M (Date r)) (df t)
                 in Inr (t, s,
                      [Line ''Expense Report'', Line (replicate 30 (CHR ''='')), Total total,
                       TopCategory top_category, Line [], Line ''Monthly Spending:'']
                      @ map (\<lambda>(month, amount). MonthLine month amount) monthly_totals))))"

section \<open>What the claims speak about\<close>

text \<open>
  The four invariants of an admitted record: a date that is a calendar date, a positive
  amount, a category of the fixed set, a description that is a text and not empty.
\<close>

definition admissible :: "string list \<Rightarrow> timestamp row \<Rightarrow> bool" where
  "admissible cats r =
     (Date r \<noteq> NaT \<and> pf_lt (Fin 0) (Amount r) \<and> Category r \<in> set cats \<and>
      (case Description r of PStr d \<Rightarrow> d \<noteq> [] | _ \<Rightarrow> False))"

text \<open>A description that is empty or holds white space only.\<close>

definition blank :: "string \<Rightarrow> bool" where
  "blank d = list_all (\<lambda>c. c \<in> set [CHR '' '', CHR 0x09, CHR 0x0A, CHR 0x0B, CHR 0x0C, CHR 0x0D]) d"

text \<open>
  The conjunction of the supplied predicates of a filter call, in the words of the
  specification: exact category, inclusive date bounds, inclusive lower bound on the
  amount. A bound is supplied when it is truthy; one that does not parse holds of no row.
\<close>

definition spec_matches ::
  "lib \<Rightarrow> pyval \<Rightarrow> pyval \<Rightarrow> pyval \<Rightarrow> pyval \<Rightarrow> timestamp row \<Rightarrow> bool" where
  "spec_matches L category start_date end_date min_amount r =
     ((if truthy category then PStr (Category r) = category else True) \<and>
      (if truthy start_date
       then (case to_datetime L start_date of Inl e \<Rightarrow> False | Inr start \<Rightarrow> ts_le start (Date r))
       else True) \<and>
      (if truthy end_date
       then (case to_datetime L end_date of Inl e \<Rightarrow> False | Inr end' \<Rightarrow> ts_le (Date r) end')
       else True) \<and>
      (if truthy min_amount
       then (case py_float L min_amount of Inl e \<Rightarrow> False | Inr m \<Rightarrow> pf_le m (Amount r))
       else True))"

text \<open>A supplied bound parses.\<close>

definition parses :: "pyval \<Rightarrow> (exn + 'a) \<Rightarrow> bool" where
  "parses v res = (if truthy v then isl res = False else True)"

text \<open>A date bound that, when supplied, parses to a timestamp without a time zone.\<close>

definition plain_bound :: "lib \<Rightarrow> pyval \<Rightarrow> bool" where
  "plain_bound L v =
     (if truthy v
      then (case to_datetime L v of Inl e \<Rightarrow> False | Inr d \<Rightarrow> zoned d = False)
      else True)"

text \<open>
  A number that \<^verbatim>\<open>float\<close> converts without rounding or overflow: any float, and an integer
  of at most 53 bits.
\<close>

definition exact_number :: "pyval \<Rightarrow> bool" where
  "exact_number v = (case v of PInt n \<Rightarrow> \<bar>n\<bar> \<le> 2 ^ 53 | _ \<Rightarrow> True)"

text \<open>How \<^verbatim>\<open>filter_expenses\<close> shows a result: the rows, or a line when there are none.\<close>

definition shown :: "frame \<Rightarrow> out list" where
  "shown rows = (if rows = [] then [Line ''No expenses found.''] else [Frame rows])"



section \<open>Library instances for the scenarios\<close>

text \<open>
  The values of the two parsers on the literals the scenarios below use. Any other text
  is unparseable in this instance, which the scenarios rely on for \<^verbatim>\<open>'soon'\<close> only. The
  reductions of this instance are exact, as the library's are on the amounts of the
  scenarios that use them: whole numbers, with a whole mean.
\<close>

definition scenario_lib :: lib where
  "scenario_lib =
     \<lparr>pd_to_datetime =
        map_of [(PStr ''2024-01-15'', Stamp 2024 1 15 0),
                (PStr ''2024-01-20'', Stamp 2024 1 20 0),
                (PStr ''2024-02-01'', Stamp 2024 2 1 0),
                (PStr ''2024-02-10'', Stamp 2024 2 10 0),
                (PStr ''2024-01-15T00:00:00Z'', StampUTC 2024 1 15 0)],
      str_to_float =
        map_of [(''42.50'', Fin (85 / 2)), (''-5'', Fin (- 5)), (''15'', Fin 15),
                (''10'', Fin 10), (''nan'', NaN)],
      np_sum = sum_list,
      np_mean = (\<lambda>xs. sum_list xs / of_nat (length xs)),
      group_sum = sum_list\<rparr>"

definition tracker0 :: tracker where
  "tracker0 =
     \<lparr>file_path = ''expenses.csv'',
      categories = [''Food'', ''Transport'', ''Utilities'', ''Entertainment''],
      df = []\<rparr>"

text \<open>The ledger of the scenarios: Food 10 in January, Food 20 in February, Transport 5 in January.\<close>

definition ledger3 :: frame where
  "ledger3 =
     [\<lparr>Date = Stamp 2024 1 15 0, Amount = Fin 10, Category = ''Food'',
       Description = PStr ''lunch''\<rparr>,
      \<lparr>Date = Stamp 2024 2 10 0, Amount = Fin 20, Category = ''Food'',
       Description = PStr ''dinner''\<rparr>,
      \<lparr>Date = Stamp 2024 1 20 0, Amount = Fin 5, Category = ''Transport'',
       Description = PStr ''bus''\<rparr>]"

definition tracker3 :: tracker where
  "tracker3 = tracker0\<lparr>df := ledger3\<rparr>"










text \<open>A table holding an amount that is \<^verbatim>\<open>nan\<close>, as two calls of \<^verbatim>\<open>add_expense\<close> leave it.\<close>

definition ledger_nan :: frame where
  "ledger_nan =
     [\<lparr>Date = Stamp 2024 1 15 0, Amount = Fin 10, Category = ''Food'',
       Description = PStr ''lunch''\<rparr>,
      \<lparr>Date = Stamp 2024 1 20 0, Amount = NaN, Category = ''Food'',
       Description = PStr ''snack''\<rparr>]"

section \<open>Outcomes of a call\<close>

text \<open>
  A result \<open>Inl e\<close> is a call that raised \<open>e\<close> to its caller; \<open>Inr (t', s', outs)\<close> is a call
  that returned, leaving the object \<open>t'\<close> and the file \<open>s'\<close>, after printing \<open>outs\<close>.
\<close>

lemma to_datetime_raises: "to_datetime L v = Inl e \<Longrightarrow> e = ValueError"
  by (auto simp: to_datetime_def split: pyval.splits option.splits)

lemma py_float_raises: "py_float L v = Inl e \<Longrightarrow> e = ValueError \<or> e = TypeError"
  by (auto simp: py_float_def split: pyval.splits option.splits)

lemma compare_dates_raises: "compare_dates a b = Inl e \<Longrightarrow> e = TypeError"
  by (auto simp: compare_dates_def split: if_splits)

lemma filter_rows_raises:
  assumes "\<And>r e. p r = Inl e \<Longrightarrow> e = TypeError"
  shows "filter_rows p rs = Inl e \<Longrightarrow> e = TypeError"
  using assms by (induction rs arbitrary: e) (auto split: sum.splits)

lemma filter_rows_filter:
  assumes "\<And>r. r \<in> set rs \<Longrightarrow> p r = Inr (q r)"
  shows "filter_rows p rs = Inr (filter q rs)"
  using assms by (induction rs) simp_all

lemmas scenario_simps =
  Let_def scenario_lib_def tracker0_def to_datetime_def py_float_def to_csv_def

lemmas reload_simps =
  ExpenseTracker_def load_data_def read_csv_def na_cell_def na_values_def keep_row_def

section \<open>Appending\<close>

text \<open>
  C1. Taken at the amount text \<^verbatim>\<open>'nan'\<close>: \<^verbatim>\<open>float('nan')\<close> is \<^verbatim>\<open>nan\<close>, the test
  \<^verbatim>\<open>amount <= 0\<close> is false for it, and \<^verbatim>\<open>add_expense\<close> appends and writes a record whose
  amount is not positive. The mask of \<^verbatim>\<open>load_data\<close>, \<^verbatim>\<open>Amount > 0\<close>, drops that very
  record when the file is loaded again.
\<close>

theorem nan_amount_admitted:
  "add_expense scenario_lib tracker0 Absent (PStr ''2024-01-15'') (PStr ''nan'') ''Food'' ''lunch''
     = Inr (tracker0\<lparr>df := [\<lparr>Date = Stamp 2024 1 15 0, Amount = NaN, Category = ''Food'',
                               Description = PStr ''lunch''\<rparr>]\<rparr>,
            to_csv [\<lparr>Date = Stamp 2024 1 15 0, Amount = NaN, Category = ''Food'',
                     Description = PStr ''lunch''\<rparr>],
            [Line ''Expense added!''])
   \<and> admissible (categories tracker0)
        \<lparr>Date = Stamp 2024 1 15 0, Amount = NaN, Category = ''Food'',
         Description = PStr ''lunch''\<rparr> = False
   \<and> ExpenseTracker scenario_lib ''expenses.csv''
        (to_csv [\<lparr>Date = Stamp 2024 1 15 0, Amount = NaN, Category = ''Food'',
                  Description = PStr ''lunch''\<rparr>])
     = Inr (tracker0,
            to_csv [\<lparr>Date = Stamp 2024 1 15 0, Amount = NaN, Category = ''Food'',
                     Description = PStr ''lunch''\<rparr>],
            [Removed 1])"
  by (simp add: scenario_simps reload_simps add_expense_def admissible_def)



text \<open>
  Whatever the arguments, a call that returns has either changed nothing or appended one
  row and written the whole new table: there is no state between the two.
\<close>

lemma add_expense_all_or_nothing:
  assumes "add_expense L t s date amount category description = Inr (t', s', outs)"
  shows "(t' = t \<and> s' = s) \<or>
         (\<exists>r. t' = t\<lparr>df := df t @ [r]\<rparr> \<and> s' = to_csv (df t @ [r]) \<and>
               outs = [Line ''Expense added!''])"
  using assms
  by (auto simp: add_expense_def Let_def split: sum.splits if_splits)

text \<open>
  What the checks of \<^verbatim>\<open>add_expense\<close> do establish of a record they admit: its amount is
  not at most 0 (which \<^verbatim>\<open>nan\<close> is not either), its category is one of the object's
  categories and its description is a text that is not empty.
\<close>

lemma add_expense_admitted_record:
  assumes "add_expense L t s date amount category description = Inr (t', s', outs)"
    and "df t' \<noteq> df t"
  shows "\<exists>r d. df t' = df t @ [r] \<and> to_datetime L date = Inr (Date r) \<and>
             py_float L amount = Inr (Amount r) \<and> pf_le (Amount r) (Fin 0) = False \<and>
             Category r = category \<and> category \<in> set (categories t) \<and>
             Description r = PStr d \<and> d \<noteq> []"
  using assms
  by (auto simp: add_expense_def Let_def split: sum.splits if_splits)

text \<open>
  C5, as stated, at a description of three spaces: \<^verbatim>\<open>if not description\<close> is false for
  it, and the record is admitted with the three spaces as its description.
\<close>

theorem whitespace_description_kept:
  "blank ''   '' \<and>
   add_expense scenario_lib tracker0 Absent (PStr ''2024-01-15'') (PStr ''42.50'') ''Food'' ''   ''
     = Inr (tracker0\<lparr>df := [\<lparr>Date = Stamp 2024 1 15 0, Amount = Fin (85 / 2),
                               Category = ''Food'', Description = PStr ''   ''\<rparr>]\<rparr>,
            to_csv [\<lparr>Date = Stamp 2024 1 15 0, Amount = Fin (85 / 2), Category = ''Food'',
                     Description = PStr ''   ''\<rparr>],
            [Line ''Expense added!''])
   \<and> ''   '' \<noteq> ''No description''"
  by (simp add: scenario_simps add_expense_def blank_def)

text \<open>
  C5, amended. Whenever \<^verbatim>\<open>add_expense\<close> admits a record, the description of that record
  is the sentinel \<^verbatim>\<open>'No description'\<close> if the description argument is the empty string,
  and the argument itself, unchanged, if it is not empty (white space included).
\<close>

theorem description_sentinel:
  assumes "add_expense L t s date amount category description = Inr (t', s', outs)"
    and "df t' \<noteq> df t"
  shows "\<exists>r. df t' = df t @ [r] \<and>
             Description r =
               PStr (if description = [] then ''No description'' else description)"
  using assms
  by (auto simp: add_expense_def Let_def split: sum.splits if_splits)

theorem description_sentinel_witness:
  "add_expense scenario_lib tracker0 Absent (PStr ''2024-01-15'') (PStr ''42.50'') ''Food'' []
     = Inr (tracker0\<lparr>df := [\<lparr>Date = Stamp 2024 1 15 0, Amount = Fin (85 / 2),
                               Category = ''Food'', Description = PStr ''No description''\<rparr>]\<rparr>,
            to_csv [\<lparr>Date = Stamp 2024 1 15 0, Amount = Fin (85 / 2), Category = ''Food'',
                     Description = PStr ''No description''\<rparr>],
            [Line ''Expense added!''])
   \<and> (\<exists>r. [\<lparr>Date = Stamp 2024 1 15 0, Amount = Fin (85 / 2), Category = ''Food'',
              Description = PStr ''No description''\<rparr>] = [r] \<and>
            Description r = PStr ''No description'')"
proof -
  let ?r = "\<lparr>Date = Stamp 2024 1 15 0, Amount = Fin (85 / 2), Category = ''Food'',
             Description = PStr ''No description''\<rparr>"
  have run: "add_expense scenario_lib tracker0 Absent (PStr ''2024-01-15'') (PStr ''42.50'')
               ''Food'' [] = Inr (tracker0\<lparr>df := [?r]\<rparr>, to_csv [?r], [Line ''Expense added!''])"
    by (simp add: scenario_simps add_expense_def)
  have grown: "df (tracker0\<lparr>df := [?r]\<rparr>) \<noteq> df tracker0"
    by (simp add: tracker0_def)
  from description_sentinel [OF run grown] run show ?thesis
    by (simp add: tracker0_def)
qed

section \<open>Loading a missing file\<close>

text \<open>
  C8. When the file does not exist, \<^verbatim>\<open>load_data\<close> returns (it does not raise) with an
  empty table in the object, and so does the constructor that calls it; the file stays
  absent, and the one line printed is a notice.
\<close>

theorem missing_store_recovery:
  "load_data L t Absent
     = Inr (t\<lparr>df := []\<rparr>, Absent, [Line ''File not found. Starting with empty data.''])
   \<and> ExpenseTracker L path Absent
     = Inr (\<lparr>file_path = path,
             categories = [''Food'', ''Transport'', ''Utilities'', ''Entertainment''],
             df = []\<rparr>,
            Absent, [Line ''File not found. Starting with empty data.''])"
  by (simp add: load_data_def read_csv_def ExpenseTracker_def)

section \<open>Reloading after an append\<close>

text \<open>
  C3. Taken at the description \<^verbatim>\<open>'NA'\<close> on an empty ledger: \<^verbatim>\<open>add_expense\<close> admits the
  record, which satisfies the four invariants, and writes it; \<^verbatim>\<open>pd.read_csv\<close> then reads
  the text \<^verbatim>\<open>NA\<close> as a missing value, so the tracker constructed again from the written
  file holds the record with \<^verbatim>\<open>nan\<close> for its description, not the record that was
  appended.
\<close>

theorem na_description_lost:
  "add_expense scenario_lib tracker0 Absent (PStr ''2024-01-15'') (PStr ''15'') ''Food'' ''NA''
     = Inr (tracker0\<lparr>df := [\<lparr>Date = Stamp 2024 1 15 0, Amount = Fin 15, Category = ''Food'',
                               Description = PStr ''NA''\<rparr>]\<rparr>,
            to_csv [\<lparr>Date = Stamp 2024 1 15 0, Amount = Fin 15, Category = ''Food'',
                     Description = PStr ''NA''\<rparr>],
            [Line ''Expense added!''])
   \<and> admissible (categories tracker0)
        \<lparr>Date = Stamp 2024 1 15 0, Amount = Fin 15, Category = ''Food'',
         Description = PStr ''NA''\<rparr>
   \<and> ExpenseTracker scenario_lib ''expenses.csv''
        (to_csv [\<lparr>Date = Stamp 2024 1 15 0, Amount = Fin 15, Category = ''Food'',
                  Description = PStr ''NA''\<rparr>])
     = Inr (tracker0\<lparr>df := [\<lparr>Date = Stamp 2024 1 15 0, Amount = Fin 15, Category = ''Food'',
                               Description = PFloat NaN\<rparr>]\<rparr>,
            to_csv [\<lparr>Date = Stamp 2024 1 15 0, Amount = Fin 15, Category = ''Food'',
                     Description = PStr ''NA''\<rparr>],
            [])
   \<and> PFloat NaN \<noteq> PStr ''NA''"
  by (simp add: scenario_simps reload_simps add_expense_def admissible_def)

section \<open>Filtering\<close>

text \<open>
  C4. Taken at the start date \<^verbatim>\<open>'2024-01-15T00:00:00Z'\<close> on the ledger of the scenarios:
  the bound is supplied and parses, to a timestamp with a time zone; comparing the dates
  of the table, which have none, with it raises \<^verbatim>\<open>TypeError\<close> inside the \<^verbatim>\<open>try\<close>, whose
  handler catches \<^verbatim>\<open>ValueError\<close> only. The call raises and shows no row.
\<close>

theorem zoned_bound_raises:
  "truthy (PStr ''2024-01-15T00:00:00Z'')
   \<and> to_datetime scenario_lib (PStr ''2024-01-15T00:00:00Z'') = Inr (StampUTC 2024 1 15 0)
   \<and> parses (PStr ''2024-01-15T00:00:00Z'')
        (to_datetime scenario_lib (PStr ''2024-01-15T00:00:00Z''))
   \<and> filter_expenses scenario_lib tracker3 (to_csv ledger3) PNone
        (PStr ''2024-01-15T00:00:00Z'') PNone PNone
     = Inl TypeError"
  by (simp add: scenario_simps tracker3_def ledger3_def filter_expenses_def parses_def
      except_ValueError_def compare_dates_def)

text \<open>
  What does hold of the rows shown. When the date bounds supplied parse to timestamps
  without a time zone, the minimum supplied parses and is a number \<^verbatim>\<open>float\<close> converts
  exactly, and no date of the table has a time zone, \<^verbatim>\<open>filter_expenses\<close> shows exactly
  the rows of the table that satisfy all the supplied predicates together, in the order
  they have in the table; when no row does, it prints that none was found.
\<close>

text \<open>
  Between timestamps without a time zone the comparison never raises, and narrowing the
  table by it is a plain filter.
\<close>

lemma compare_dates_plain:
  "\<not> zoned a \<Longrightarrow> \<not> zoned b \<Longrightarrow> compare_dates a b = Inr (ts_le a b)"
  by (cases a; cases b) (simp_all add: compare_dates_def)

lemma filter_rows_from:
  assumes "\<not> zoned b" and "list_all (\<lambda>r. \<not> zoned (Date r)) rs"
  shows "filter_rows (\<lambda>r. compare_dates b (Date r)) rs = Inr (filter (\<lambda>r. ts_le b (Date r)) rs)"
  using assms by (intro filter_rows_filter compare_dates_plain) (simp_all add: list_all_iff)

lemma filter_rows_upto:
  assumes "\<not> zoned b" and "list_all (\<lambda>r. \<not> zoned (Date r)) rs"
  shows "filter_rows (\<lambda>r. compare_dates (Date r) b) rs = Inr (filter (\<lambda>r. ts_le (Date r) b) rs)"
  using assms by (intro filter_rows_filter compare_dates_plain) (simp_all add: list_all_iff)

lemma list_all_plain_filter:
  "list_all (\<lambda>r. \<not> zoned (Date r)) rs \<Longrightarrow> list_all (\<lambda>r. \<not> zoned (Date r)) (filter Q rs)"
  by (simp add: list_all_iff)

lemma filter_expenses_plain:
  assumes "plain_bound L start_date"
    and "plain_bound L end_date"
    and "parses min_amount (py_float L min_amount)"
    and "exact_number min_amount"
    and "list_all (\<lambda>r. zoned (Date r) = False) (df t)"
  shows "filter_expenses L t s category start_date end_date min_amount =
     Inr (t, s, shown (filter (spec_matches L category start_date end_date min_amount) (df t)))"
proof -
  have plain: "list_all (\<lambda>r. \<not> zoned (Date r)) (filter Q (df t))" for Q
    using assms(5) by (simp add: list_all_iff)
  have plain': "list_all (\<lambda>r. \<not> zoned (Date r)) (df t)"
    using assms(5) by (simp add: list_all_iff)
  note stages = filter_rows_from [OF _ plain] filter_rows_upto [OF _ plain]
    filter_rows_from [OF _ plain'] filter_rows_upto [OF _ plain']
    filter_rows_upto [OF _ list_all_plain_filter [OF plain]]
    filter_rows_upto [OF _ list_all_plain_filter [OF plain']]
  show ?thesis
    using assms(1-3)
    by (cases "to_datetime L start_date"; cases "to_datetime L end_date";
        cases "py_float L min_amount"; cases "truthy category"; cases "truthy start_date";
        cases "truthy end_date"; cases "truthy min_amount")
       (simp_all add: filter_expenses_def spec_matches_def parses_def plain_bound_def
          shown_def Let_def stages conj_ac cong: filter_cong)
qed

text \<open>The scenario of the specification: category Food and a minimum of 15.\<close>

lemma filter_scenario:
  "filter_expenses scenario_lib tracker3 s (PStr ''Food'') PNone PNone (PInt 15)
     = Inr (tracker3, s,
            [Frame [\<lparr>Date = Stamp 2024 2 10 0, Amount = Fin 20, Category = ''Food'',
                     Description = PStr ''dinner''\<rparr>]])"
  by (simp add: filter_expenses_def tracker3_def tracker0_def ledger3_def py_float_def Let_def)




text \<open>
  On a table whose only row has the amount \<^verbatim>\<open>nan\<close>, a minimum of 0 shows the row, which
  the bound \<^verbatim>\<open>Amount >= 0\<close> would leave out.
\<close>

lemma zero_bound_scenario:
  "filter_expenses L
     (tracker0\<lparr>df := [\<lparr>Date = Stamp 2024 1 15 0, Amount = NaN, Category = ''Food'',
                         Description = PStr ''lunch''\<rparr>]\<rparr>) s PNone PNone PNone (PInt 0)
    = Inr (tracker0\<lparr>df := [\<lparr>Date = Stamp 2024 1 15 0, Amount = NaN, Category = ''Food'',
                              Description = PStr ''lunch''\<rparr>]\<rparr>, s,
           [Frame [\<lparr>Date = Stamp 2024 1 15 0, Amount = NaN, Category = ''Food'',
                    Description = PStr ''lunch''\<rparr>]])
   \<and> filter (\<lambda>r. pf_le (Fin 0) (Amount r))
        [\<lparr>Date = Stamp 2024 1 15 0, Amount = NaN, Category = ''Food'',
          Description = PStr ''lunch''\<rparr>] = []"
  by (simp add: filter_expenses_def tracker0_def Let_def)

section \<open>Summary\<close>


text \<open>The second table is what \<^verbatim>\<open>add_expense\<close> leaves when it is given the amount \<^verbatim>\<open>'nan'\<close>.\<close>

lemma ledger_nan_reached:
  "add_expense scenario_lib
     (tracker0\<lparr>df := [\<lparr>Date = Stamp 2024 1 15 0, Amount = Fin 10, Category = ''Food'',
                         Description = PStr ''lunch''\<rparr>]\<rparr>) s
     (PStr ''2024-01-20'') (PStr ''nan'') ''Food'' ''snack''
   = Inr (tracker0\<lparr>df := ledger_nan\<rparr>, to_csv ledger_nan, [Line ''Expense added!''])"
  by (simp add: add_expense_def scenario_simps ledger_nan_def)











section \<open>The reading methods change nothing\<close>

lemma category_totals_nonempty: "rows \<noteq> [] \<Longrightarrow> category_totals L rows \<noteq> []"
  by (auto simp: category_totals_def groupby_sum_def List.map_filter_def
      dest!: arg_cong [where f = set])

text \<open>
  C10. \<^verbatim>\<open>get_summary\<close>, \<^verbatim>\<open>filter_expenses\<close> and \<^verbatim>\<open>generate_report\<close> leave the object and
  the file as they were: each returns the \<open>t\<close> and \<open>s\<close> it was given, whatever it prints.
  The one call that may not return is \<^verbatim>\<open>filter_expenses\<close>, which can raise \<^verbatim>\<open>TypeError\<close>,
  having assigned nothing.
\<close>

theorem reading_methods_change_nothing:
  "(\<exists>outs. get_summary L t s = (t, s, outs)) \<and>
   (filter_expenses L t s category start_date end_date min_amount = Inl TypeError \<or>
    (\<exists>outs. filter_expenses L t s category start_date end_date min_amount
              = Inr (t, s, outs))) \<and>
   (\<exists>outs. generate_report L t s = Inr (t, s, outs))"
proof (intro conjI)
  show "\<exists>outs. get_summary L t s = (t, s, outs)"
    by (simp add: get_summary_def Let_def)
next
  have sd: "to_datetime L start_date = Inl e \<Longrightarrow> e = ValueError" for e
    by (rule to_datetime_raises)
  have ed: "to_datetime L end_date = Inl e \<Longrightarrow> e = ValueError" for e
    by (rule to_datetime_raises)
  have ma: "py_float L min_amount = Inl e \<Longrightarrow> e = ValueError \<or> e = TypeError" for e
    by (rule py_float_raises)
  have c1: "filter_rows (\<lambda>r. compare_dates b (Date r)) rs = Inl e \<Longrightarrow> e = TypeError"
    for b rs e
    by (erule filter_rows_raises [rotated]) (rule compare_dates_raises)
  have c2: "filter_rows (\<lambda>r. compare_dates (Date r) b) rs = Inl e \<Longrightarrow> e = TypeError"
    for b rs e
    by (erule filter_rows_raises [rotated]) (rule compare_dates_raises)
  show "filter_expenses L t s category start_date end_date min_amount = Inl TypeError \<or>
    (\<exists>outs. filter_expenses L t s category start_date end_date min_amount
              = Inr (t, s, outs))"
    using sd ed ma
    by (cases "to_datetime L start_date"; cases "to_datetime L end_date";
        cases "py_float L min_amount"; cases "truthy start_date"; cases "truthy end_date";
        cases "truthy min_amount")
       (auto simp: filter_expenses_def Let_def except_ValueError_def
          split: sum.splits dest: c1 c2)
next
  show "\<exists>outs. generate_report L t s = Inr (t, s, outs)"
  proof (cases "df t = []")
    case True
    then show ?thesis by (simp add: generate_report_def)
  next
    case False
    then obtain kv kvs where "category_totals L (df t) = kv # kvs"
      using category_totals_nonempty [of "df t" L] by (cases "category_totals L (df t)") auto
    with False show ?thesis
      by (simp add: generate_report_def Let_def)
  qed
qed

text \<open>The report of the scenario ledger: Food on top, January 15 and February 20.\<close>

lemma report_scenario:
  "generate_report scenario_lib tracker3 s =
     Inr (tracker3, s,
          [Line ''Expense Report'', Line (replicate 30 (CHR ''='')), Total (Fin 35),
           TopCategory ''Food'', Line [], Line ''Monthly Spending:'',
           MonthLine (2024, 1) (Fin 15), MonthLine (2024, 2) (Fin 20)])"
  by (simp add: generate_report_def tracker3_def tracker0_def ledger3_def Let_def
      summary_total_def category_totals_def groupby_sum_def series_sum_def
      series_group_sum_def scenario_lib_def List.map_filter_simps)

end
